theory Spec2Isabelle
  imports Main Complex_Main "HOL-Library.Word" "HOL-Library.Sublist"
begin

text \<open>
  The backend of \<open>src/backend/src/app.ts\<close>: the access guard \<open>checkOrigin\<close> and the
  handlers of \<open>/simplify\<close>, \<open>/word-info\<close> and \<open>/feedback\<close>. A handler is a function
  from the request, and from the state outside the process where it reads or writes it,
  to the response and the new state. Request fields have the types the source declares
  for them; a missing field is \<open>undefined\<close>. What the handlers call outside the file
  (extraction, URL validation, the completion client, the cache store, the digest) is a
  parameter. Logging is left out.
\<close>

section \<open>JavaScript values used by the backend\<close>

text \<open>
  A JavaScript string is a sequence of UTF-16 code units; \<open>s.length\<close> counts them.
  A string literal of the source is written \<open>lit ''...''\<close>.
\<close>

type_synonym jsstring = "16 word list"

definition lit :: "string \<Rightarrow> jsstring" where
  "lit s = map (\<lambda>c. of_nat (of_char c)) s"

text \<open>
  A header, a body field or an environment variable is \<open>undefined\<close> (\<open>None\<close>) or
  a string. In a condition the empty string counts as false, like \<open>undefined\<close>.
\<close>

definition truthy :: "jsstring option \<Rightarrow> bool" where
  "truthy v = (case v of None \<Rightarrow> False | Some s \<Rightarrow> s \<noteq> [])"

text \<open>The value as a condition sees it: \<open>None\<close> when it counts as false.\<close>

definition if_truthy :: "jsstring option \<Rightarrow> jsstring option" where
  "if_truthy v = (if truthy v then v else None)"

text \<open>\<open>a || b\<close> on optional strings.\<close>

definition js_or :: "jsstring option \<Rightarrow> jsstring option \<Rightarrow> jsstring option" where
  "js_or a b = (if truthy a then a else b)"

text \<open>\<open>a || "default"\<close>, whose result is always a string.\<close>

definition or_default :: "jsstring option \<Rightarrow> jsstring \<Rightarrow> jsstring" where
  "or_default a d = (case a of None \<Rightarrow> d | Some s \<Rightarrow> (if s = [] then d else s))"

text \<open>
  \<open>s.startsWith(p)\<close>: the first \<open>p.length\<close> code units of \<open>s\<close> are compared
  with \<open>p\<close>; a string shorter than \<open>p\<close> does not start with it.
\<close>

definition startsWith :: "jsstring \<Rightarrow> jsstring \<Rightarrow> bool" where
  "startsWith s p = (length p \<le> length s \<and> take (length p) s = p)"

text \<open>
  \<open>s.trim()\<close> removes the white space and the line terminators of ECMAScript from both
  ends: TAB, LF, VT, FF, CR, SP, NBSP, U+1680, U+2000 to U+200A, U+2028, U+2029, U+202F,
  U+205F, U+3000 and U+FEFF.
\<close>

definition is_ws :: "16 word \<Rightarrow> bool" where
  "is_ws c = (c \<in> {0x9, 0xA, 0xB, 0xC, 0xD, 0x20, 0xA0, 0x1680, 0x2000, 0x2001, 0x2002,
     0x2003, 0x2004, 0x2005, 0x2006, 0x2007, 0x2008, 0x2009, 0x200A, 0x2028, 0x2029,
     0x202F, 0x205F, 0x3000, 0xFEFF})"

definition trim :: "jsstring \<Rightarrow> jsstring" where
  "trim s = rev (dropWhile is_ws (rev (dropWhile is_ws s)))"

text \<open>
  \<open>s.split(sep)\<close> for a separator of one code unit. The result is never empty:
  \<open>"".split(sep)\<close> is \<open>[""]\<close>.
\<close>

fun split :: "16 word \<Rightarrow> jsstring \<Rightarrow> jsstring list" where
  "split sep [] = [[]]"
| "split sep (c # cs) =
     (if c = sep then [] # split sep cs
      else (case split sep cs of [] \<Rightarrow> [[c]] | p # ps \<Rightarrow> (c # p) # ps))"

text \<open>
  A JavaScript number: NaN, an infinity, or a finite value. Every finite double is a
  rational, and \<open><\<close> and \<open>></\<close> compare finite doubles as rationals; a comparison with
  NaN is false.
\<close>

datatype jsnumber = NaN | PosInfinity | NegInfinity | Finite rat

fun isNaN :: "jsnumber \<Rightarrow> bool" where
  "isNaN NaN = True"
| "isNaN _ = False"

fun js_less :: "jsnumber \<Rightarrow> jsnumber \<Rightarrow> bool" where
  "js_less NaN _ = False"
| "js_less _ NaN = False"
| "js_less PosInfinity _ = False"
| "js_less _ NegInfinity = False"
| "js_less NegInfinity _ = True"
| "js_less _ PosInfinity = True"
| "js_less (Finite a) (Finite b) = (a < b)"

definition js_greater :: "jsnumber \<Rightarrow> jsnumber \<Rightarrow> bool" where
  "js_greater a b = js_less b a"

text \<open>A number in a condition: NaN and zero count as false.\<close>

fun truthy_number :: "jsnumber \<Rightarrow> bool" where
  "truthy_number NaN = False"
| "truthy_number (Finite q) = (q \<noteq> 0)"
| "truthy_number _ = True"

text \<open>
  A value thrown and caught: an \<open>Error\<close> object with its message, or any other value.
  \<open>error instanceof Error ? error.message : d\<close> is \<open>message_or d\<close>.
\<close>

datatype thrown = Error jsstring | NonError

fun message_or :: "jsstring \<Rightarrow> thrown \<Rightarrow> jsstring" where
  "message_or d (Error m) = m"
| "message_or d NonError = d"

section \<open>Configuration\<close>

text \<open>
  The constants at the top of \<open>app.ts\<close> are read from the process environment:
  \<open>DEV_TOKEN\<close>, \<open>EXTENSION_ID\<close> and \<open>Number(process.env.WORD_LIMIT)\<close>.
  \<open>sha256_hex\<close> stands for \<open>createHash('sha256').update(_).digest('hex')\<close> of Node's
  crypto module.
\<close>

record config =
  DEV_TOKEN :: "jsstring option"
  EXTENSION_ID :: "jsstring option"
  WORD_LIMIT :: jsnumber
  sha256_hex :: "jsstring \<Rightarrow> jsstring"

definition TOKEN :: "config \<Rightarrow> jsstring" where
  "TOKEN cfg = or_default (DEV_TOKEN cfg) (lit ''No token provided'')"

definition allowedOrigin :: jsstring where
  "allowedOrigin = lit ''https://simplifymytext.org''"

definition allowedExtension :: "config \<Rightarrow> jsstring" where
  "allowedExtension cfg = or_default (EXTENSION_ID cfg) (lit ''error'')"

definition wordLimit :: "config \<Rightarrow> jsnumber" where
  "wordLimit cfg = (if truthy_number (WORD_LIMIT cfg) then WORD_LIMIT cfg else Finite 5000)"

definition extension_token :: "config \<Rightarrow> jsstring" where
  "extension_token cfg = sha256_hex cfg (TOKEN cfg)"

section \<open>Responses\<close>

datatype body =
    MessageBody jsstring
  | ErrorBody jsstring
  | SimplifiedText jsstring
  | WordInfo jsstring jsstring "jsstring list"

record response =
  status :: nat
  body :: body

definition respond :: "nat \<Rightarrow> body \<Rightarrow> response" where
  "respond st b = \<lparr>status = st, body = b\<rparr>"

section \<open>The access guard\<close>

record headers =
  origin :: "jsstring option"
  referer :: "jsstring option"
  token :: "jsstring option"

datatype guard_result = Next | Respond response

definition access_denied :: response where
  "access_denied =
     respond 403 (MessageBody (lit ''Access denied: Requests from your origin are not allowed.''))"

text \<open>
  \<open>checkOrigin\<close>, applied to the headers of a request that reaches it: \<open>next()\<close> is
  \<open>Next\<close>, the 403 reply is \<open>Respond\<close>. The \<open>cors\<close> middleware registered before it
  belongs to a library and is not part of the model.
\<close>

definition checkOrigin :: "config \<Rightarrow> headers \<Rightarrow> guard_result" where
  "checkOrigin cfg h =
     (let orig = js_or (origin h) (referer h); tok = token h
      in case if_truthy orig of
           None \<Rightarrow> Respond access_denied
         | Some og \<Rightarrow>
             if startsWith og allowedOrigin
                \<or> (startsWith og (allowedExtension cfg) \<and> tok = Some (extension_token cfg))
                \<or> startsWith og (lit ''http://localhost'')
                \<or> startsWith og (lit ''https://localhost'')
             then Next
             else Respond access_denied)"

section \<open>External collaborators and the state they change\<close>

text \<open>
  \<open>TargetAudiences\<close> is the enumeration of \<open>./types\<close>; that file is not among the
  sources, so the value each member has at run time is the parameter \<open>audienceValue\<close>.
\<close>

datatype TargetAudiences =
    ScientistsResearchers
  | StudentsAcademics
  | IndustryProfessionals
  | JournalistsMedia
  | GeneralPublic

text \<open>
  The body of a completion reply: for each element of \<open>choices\<close>, its
  \<open>message.content\<close>, or \<open>None\<close> where the message or its content is missing or null.
\<close>

record api_response =
  choices :: "jsstring option list"

text \<open>
  What the handlers call outside \<open>app.ts\<close>:
  \<^item> \<open>extractTextFromPdf\<close>, \<open>extractTextFromWord\<close> (\<open>./utils/fileUtils\<close>) and
    \<open>validateUrl\<close> (\<open>./utils/validateUrl\<close>) return or throw;
  \<^item> \<open>utf8_toString\<close> is \<open>buffer.toString('utf-8')\<close>, which never throws;
  \<^item> \<open>post_completion\<close> is \<open>createApiClient(apiKey).post('', {...})\<close> for the prompt
    given as the content of the one user message: the reply, or what was thrown;
  \<^item> \<open>typeErrorMessage\<close> is the message of the TypeError the engine throws when
    \<open>choices[0].message.content.trim()\<close> reads through a missing value;
  \<^item> \<open>redis_set\<close> tells whether \<open>redisClient.set(key, value)\<close> throws (\<open>None\<close>: it
    stored the value);
  \<^item> \<open>now\<close> is \<open>Date.now()\<close> and \<open>numberToString\<close> is the conversion of a number
    inside a template literal or by \<open>toString()\<close>.
\<close>

record env =
  audienceValue :: "TargetAudiences \<Rightarrow> jsstring"
  extractTextFromPdf :: "8 word list \<Rightarrow> thrown + jsstring"
  extractTextFromWord :: "8 word list \<Rightarrow> thrown + jsstring"
  utf8_toString :: "8 word list \<Rightarrow> jsstring"
  validateUrl :: "jsstring \<Rightarrow> thrown option"
  post_completion :: "jsstring \<Rightarrow> thrown + api_response"
  typeErrorMessage :: "api_response \<Rightarrow> jsstring"
  redis_set :: "jsstring \<Rightarrow> jsstring \<Rightarrow> thrown option"
  now :: int
  numberToString :: "jsnumber \<Rightarrow> jsstring"

text \<open>
  The state outside the process: the cache store, and the prompts for which the
  completion client has been called, oldest first.
\<close>

record world =
  cache :: "jsstring \<rightharpoonup> jsstring"
  apiCalls :: "jsstring list"

section \<open>Simplification\<close>

definition newline :: jsstring where
  "newline = [0x0A]"

definition dquote :: jsstring where
  "dquote = [0x22]"

definition instructions :: jsstring where
  "instructions = lit (''Do no write very long sentences. The language of the simplified ''
     @ ''text should match the language of the text I provide you with. If the provided ''
     @ ''text is a URL, you need to visit the URL, summarise the contents, and finally ''
     @ ''simplify the summary into plain language. Your response should only the contain ''
     @ ''the summary and nothing else.'')"

fun targetAudience :: "TargetAudiences \<Rightarrow> jsstring" where
  "targetAudience ScientistsResearchers = lit ''scientists and researchers''"
| "targetAudience StudentsAcademics = lit ''students and academics''"
| "targetAudience IndustryProfessionals = lit ''industry professionals''"
| "targetAudience JournalistsMedia = lit ''journalists and media professionals''"
| "targetAudience GeneralPublic = lit ''the general public (non-expert audience)''"

definition userPrompt :: "jsstring \<Rightarrow> TargetAudiences \<Rightarrow> jsstring" where
  "userPrompt txt userGroup =
     newline @ lit ''Simplify the following text for '' @ targetAudience userGroup @ lit '':''
     @ newline @ newline @ dquote @ trim txt @ dquote
     @ newline @ newline @ lit ''Instructions: '' @ instructions
     @ newline @ lit ''  ''"

text \<open>
  \<open>simplifyText\<close>: everything thrown inside its \<open>try\<close> (by the client, or by reading
  the reply) is thrown again as an \<open>Error\<close> with the prefixed message.
\<close>

definition simplification_failed :: "jsstring \<Rightarrow> thrown" where
  "simplification_failed errorMessage = Error (lit ''Text simplification failed: '' @ errorMessage)"

definition simplifyText ::
  "env \<Rightarrow> world \<Rightarrow> jsstring \<Rightarrow> TargetAudiences \<Rightarrow> world \<times> (thrown + jsstring)" where
  "simplifyText e w txt userGroup =
     (let prompt = userPrompt txt userGroup;
          w' = w\<lparr>apiCalls := apiCalls w @ [prompt]\<rparr>
      in case post_completion e prompt of
           Inl err \<Rightarrow> (w', Inl (simplification_failed (message_or (lit ''An unknown error occurred.'') err)))
         | Inr r \<Rightarrow>
             (case choices r of
                Some content # _ \<Rightarrow> (w', Inr (trim content))
              | _ \<Rightarrow> (w', Inl (simplification_failed (typeErrorMessage e r)))))"

definition cacheKey :: "env \<Rightarrow> jsstring \<Rightarrow> TargetAudiences \<Rightarrow> jsstring" where
  "cacheKey e originalText aud =
     (let uniqueId = numberToString e (Finite (of_int (now e)))
      in lit ''prompt|:|'' @ originalText @ lit ''|:|'' @ audienceValue e aud @ lit ''|:|'' @ uniqueId)"

definition saveToRedis ::
  "env \<Rightarrow> world \<Rightarrow> jsstring \<Rightarrow> TargetAudiences \<Rightarrow> jsstring \<Rightarrow> world \<times> (thrown + unit)" where
  "saveToRedis e w originalText aud responsePrompt =
     (let key = cacheKey e originalText aud
      in case redis_set e key responsePrompt of
           Some err \<Rightarrow> (w, Inl err)
         | None \<Rightarrow> (w\<lparr>cache := (cache w)(key \<mapsto> responsePrompt)\<rparr>, Inr ()))"

record upload =
  mimetype :: jsstring
  buffer :: "8 word list"

definition handleFileInput :: "env \<Rightarrow> upload \<Rightarrow> thrown + jsstring" where
  "handleFileInput e f =
     (if mimetype f = lit ''application/pdf'' then extractTextFromPdf e (buffer f)
      else if mimetype f = lit ''application/vnd.openxmlformats-officedocument.wordprocessingml.document''
        then extractTextFromWord e (buffer f)
      else if mimetype f = lit ''text/plain'' then Inr (utf8_toString e (buffer f))
      else Inl (Error (lit ''Unsupported file type'')))"

text \<open>
  The fields \<open>audience\<close>, \<open>text\<close> and \<open>url\<close> of the request body and the
  uploaded \<open>file\<close>; each of the last three may be missing.
\<close>

record simplify_request =
  audience :: TargetAudiences
  text_field :: "jsstring option"
  file_field :: "upload option"
  url :: "jsstring option"

text \<open>The function applied at once inside the \<open>try\<close> of \<open>/simplify\<close>.\<close>

definition resolveInput :: "env \<Rightarrow> simplify_request \<Rightarrow> thrown + jsstring" where
  "resolveInput e req =
     (case file_field req of
        Some f \<Rightarrow> handleFileInput e f
      | None \<Rightarrow>
          (case if_truthy (url req) of
             Some u \<Rightarrow> Inr u
           | None \<Rightarrow>
               (case if_truthy (text_field req) of
                  Some t \<Rightarrow> Inr t
                | None \<Rightarrow> Inl (Error (lit ''No valid input provided'')))))"

text \<open>The \<open>catch\<close> of \<open>/simplify\<close>.\<close>

definition catch_simplify :: "thrown \<Rightarrow> response" where
  "catch_simplify err =
     (let errorMessage = message_or (lit ''An unknown error occurred.'') err
      in respond 500 (ErrorBody (if errorMessage \<noteq> [] then errorMessage
                                 else lit ''An error occurred during text simplification.'')))"

definition exceeds_limit :: "config \<Rightarrow> env \<Rightarrow> response" where
  "exceeds_limit cfg e =
     respond 400 (ErrorBody (lit ''Text exceeds the word limit of ''
       @ numberToString e (wordLimit cfg) @ lit '' characters.''))"

definition simplify :: "config \<Rightarrow> env \<Rightarrow> world \<Rightarrow> simplify_request \<Rightarrow> world \<times> response" where
  "simplify cfg e w req =
     (case resolveInput e req of
        Inl err \<Rightarrow> (w, catch_simplify err)
      | Inr inputText \<Rightarrow>
          if \<not> truthy (url req) \<and> js_greater (Finite (of_nat (length inputText))) (wordLimit cfg)
          then (w, exceeds_limit cfg e)
          else
            (case (case if_truthy (url req) of Some u \<Rightarrow> validateUrl e u | None \<Rightarrow> None) of
               Some err \<Rightarrow> (w, catch_simplify err)
             | None \<Rightarrow>
                 (case simplifyText e w inputText (audience req) of
                    (w1, Inl err) \<Rightarrow> (w1, catch_simplify err)
                  | (w1, Inr simplifiedText) \<Rightarrow>
                      (case saveToRedis e w1 inputText (audience req) simplifiedText of
                         (w2, Inl err) \<Rightarrow> (w2, catch_simplify err)
                       | (w2, Inr _) \<Rightarrow> (w2, respond 200 (SimplifiedText simplifiedText))))))"

text \<open>
  The two checks of the handler between resolving the input and simplifying it: the
  length check, made only when there is no \<open>url\<close>, and the validation of the
  \<open>url\<close>, made only when there is one.
\<close>

definition too_long :: "config \<Rightarrow> simplify_request \<Rightarrow> jsstring \<Rightarrow> bool" where
  "too_long cfg req inputText =
     (\<not> truthy (url req) \<and> js_greater (Finite (of_nat (length inputText))) (wordLimit cfg))"

definition url_rejected :: "env \<Rightarrow> simplify_request \<Rightarrow> thrown option" where
  "url_rejected e req = (case if_truthy (url req) of Some u \<Rightarrow> validateUrl e u | None \<Rightarrow> None)"


section \<open>Word information\<close>

definition wordInfoPrompt :: "jsstring \<Rightarrow> jsstring" where
  "wordInfoPrompt wd =
     newline @ lit ''  Provide the following details for the word '' @ dquote @ wd @ dquote
     @ lit '':'' @ newline
     @ lit ''  1. A clear and concise definition in plain language. If no definition exists, say ''
     @ dquote @ lit ''No definitions found.'' @ dquote @ newline
     @ lit ''  2. A list of synonyms (if any). If there are no synonyms, say ''
     @ dquote @ lit ''No synonyms found.'' @ dquote @ newline"

text \<open>\<open>response.data.choices[0]?.message?.content || ""\<close>\<close>

definition responseContent :: "api_response \<Rightarrow> jsstring" where
  "responseContent r = (case choices r of Some content # _ \<Rightarrow> content | _ \<Rightarrow> [])"

text \<open>\<open>line.split(":")[1]?.trim()\<close>\<close>

definition afterColon :: "jsstring \<Rightarrow> jsstring option" where
  "afterColon line = (case split 0x3A line of _ # p # _ \<Rightarrow> Some (trim p) | _ \<Rightarrow> None)"

text \<open>
  The destructuring \<open>[definitionMatch, synonymsMatch] = ...\<close>: an element that the
  array does not have is \<open>undefined\<close>.
\<close>

definition element :: "jsstring option list \<Rightarrow> nat \<Rightarrow> jsstring option" where
  "element xs i = (if i < length xs then xs ! i else None)"

definition parseWordInfo :: "jsstring \<Rightarrow> jsstring \<times> jsstring list" where
  "parseWordInfo content =
     (let matches = map afterColon (split 0x0A content);
          definitionMatch = element matches 0;
          synonymsMatch = element matches 1;
          defn = or_default definitionMatch (lit ''Definition not found'');
          synonyms = (case if_truthy synonymsMatch of
                        Some s \<Rightarrow> map trim (split 0x2C s)
                      | None \<Rightarrow> [lit ''No synonyms found''])
      in (defn, synonyms))"

definition wordInfo :: "env \<Rightarrow> world \<Rightarrow> jsstring option \<Rightarrow> world \<times> response" where
  "wordInfo e w wordParam =
     (case if_truthy wordParam of
        None \<Rightarrow> (w, respond 400 (ErrorBody (lit ''No word provided'')))
      | Some wd \<Rightarrow>
          (let prompt = wordInfoPrompt wd;
               w' = w\<lparr>apiCalls := apiCalls w @ [prompt]\<rparr>
           in case post_completion e prompt of
                Inl err \<Rightarrow> (w', respond 500 (ErrorBody (lit ''Error fetching word information'')))
              | Inr r \<Rightarrow>
                  (case parseWordInfo (responseContent r) of
                     (defn, synonyms) \<Rightarrow> (w', respond 200 (WordInfo wd defn synonyms)))))"

text \<open>
  The parse in terms of lines: the text before the first occurrence of a code unit, and
  the text after it when there is one.
\<close>

definition before_first :: "16 word \<Rightarrow> jsstring \<Rightarrow> jsstring" where
  "before_first c s = takeWhile (\<lambda>x. x \<noteq> c) s"

definition after_first :: "16 word \<Rightarrow> jsstring \<Rightarrow> jsstring option" where
  "after_first c s = (if c \<in> set s then Some (tl (dropWhile (\<lambda>x. x \<noteq> c) s)) else None)"

definition first_line :: "jsstring \<Rightarrow> jsstring" where
  "first_line content = before_first 0x0A content"

definition second_line :: "jsstring \<Rightarrow> jsstring option" where
  "second_line content = map_option (before_first 0x0A) (after_first 0x0A content)"

text \<open>The text of a line between its first colon and its next colon (or its end), trimmed.\<close>

definition between_colons :: "jsstring \<Rightarrow> jsstring option" where
  "between_colons line = map_option (\<lambda>rest. trim (before_first 0x3A rest)) (after_first 0x3A line)"

text \<open>
  The reading of the specification, "the part after the colon": all of the line after
  its first colon, trimmed.
\<close>

definition spec_part_after_colon :: "jsstring \<Rightarrow> jsstring option" where
  "spec_part_after_colon line = map_option trim (after_first 0x3A line)"

section \<open>Feedback\<close>

text \<open>
  The \<open>rating\<close> field of the body is a number, or \<open>undefined\<close> (\<open>None\<close>) when the
  body has none; \<open>isNaN(undefined)\<close> is true.
\<close>

definition invalid_rating :: "jsnumber option \<Rightarrow> bool" where
  "invalid_rating r =
     (case r of
        None \<Rightarrow> True
      | Some n \<Rightarrow> isNaN n \<or> js_less n (Finite 1) \<or> js_greater n (Finite 10))"

definition feedback :: "jsnumber option \<Rightarrow> response" where
  "feedback rating =
     (if invalid_rating rating
      then respond 400 (ErrorBody (lit ''Rating must be a number between 1 and 10''))
      else respond 200 (MessageBody (lit ''Rating submitted successfully'')))"

section \<open>A sample deployment\<close>

text \<open>
  A concrete configuration, concrete collaborators and an empty store, on which the
  theorems below are instantiated. The digest, the decoder (Latin-1, which agrees with
  UTF-8 on ASCII bytes) and the number printer are stand-ins that suffice for the inputs
  used; the completion client answers every prompt with the same text.
\<close>

definition sample_config :: config where
  "sample_config =
     \<lparr>DEV_TOKEN = Some (lit ''secret''),
      EXTENSION_ID = Some (lit ''chrome-extension://abcdef''),
      WORD_LIMIT = Finite 5,
      sha256_hex = (\<lambda>t. lit ''digest-of-'' @ t)\<rparr>"

definition sample_env :: env where
  "sample_env =
     \<lparr>audienceValue = (\<lambda>a. lit ''general_public''),
      extractTextFromPdf = (\<lambda>b. Inl (Error (lit ''Invalid PDF structure''))),
      extractTextFromWord = (\<lambda>b. Inr (lit ''text of the document'')),
      utf8_toString = map (\<lambda>b. of_nat (unat b)),
      validateUrl = (\<lambda>u. if startsWith u (lit ''http'') then None
                          else Some (Error (lit ''Invalid URL''))),
      post_completion = (\<lambda>p. Inr \<lparr>choices = [Some (lit '' Plain words. '')]\<rparr>),
      typeErrorMessage = (\<lambda>r. lit ''Cannot read properties of undefined''),
      redis_set = (\<lambda>k v. None),
      now = 1700000000000,
      numberToString = (\<lambda>n. if n = Finite 5 then lit ''5'' else lit ''1700000000000'')\<rparr>"

definition sample_world :: world where
  "sample_world = \<lparr>cache = Map.empty, apiCalls = []\<rparr>"

text \<open>The same collaborators with a completion client that answers with the given text.\<close>

definition answering :: "jsstring \<Rightarrow> env" where
  "answering content = sample_env\<lparr>post_completion := (\<lambda>p. Inr \<lparr>choices = [Some content]\<rparr>)\<rparr>"




text \<open>Sample requests: an upload of the bytes of \<open>abcdef\<close> with a given MIME type.\<close>

definition sample_upload :: "string \<Rightarrow> upload" where
  "sample_upload mt = \<lparr>mimetype = lit mt, buffer = [97, 98, 99, 100, 101, 102]\<rparr>"

definition sample_request ::
  "jsstring option \<Rightarrow> upload option \<Rightarrow> jsstring option \<Rightarrow> simplify_request" where
  "sample_request t f u = \<lparr>audience = GeneralPublic, text_field = t, file_field = f, url = u\<rparr>"

section \<open>Facts about the JavaScript primitives\<close>

lemma startsWith_prefix: "startsWith s p \<longleftrightarrow> prefix p s"
  unfolding startsWith_def prefix_def
  by (metis append_eq_conv_conj length_append le_add1)

lemma or_default_nonempty: "d \<noteq> [] \<Longrightarrow> or_default a d \<noteq> []"
  by (simp add: or_default_def split: option.splits)

lemma lit_nonempty: "s \<noteq> [] \<Longrightarrow> lit s \<noteq> []"
  by (simp add: lit_def)

lemma allowedExtension_nonempty: "allowedExtension cfg \<noteq> []"
  by (simp add: allowedExtension_def or_default_nonempty lit_nonempty)

lemma if_truthy_Some: "if_truthy v = Some s \<longleftrightarrow> v = Some s \<and> s \<noteq> []"
  by (auto simp: if_truthy_def truthy_def split: option.splits)

lemma if_truthy_None: "if_truthy v = None \<longleftrightarrow> v = None \<or> v = Some []"
  by (auto simp: if_truthy_def truthy_def split: option.splits)

text \<open>
  \<open>split\<close> cuts at every separator and nowhere else: no part holds the separator,
  there is one part more than there are separators, and the parts in order are the
  string without its separators.
\<close>

lemma split_not_Nil: "split c s \<noteq> []"
  by (induction s) (auto split: list.splits)

lemma split_no_separator: "p \<in> set (split c s) \<Longrightarrow> c \<notin> set p"
  by (induction s arbitrary: p) (auto split: if_splits list.splits)

lemma length_split: "length (split c s) = Suc (length (filter (\<lambda>x. x = c) s))"
  by (induction s) (auto split: list.splits)

lemma concat_split: "concat (split c s) = filter (\<lambda>x. x \<noteq> c) s"
  by (induction s) (auto split: list.splits)

lemma split_unfold:
  "split c s = before_first c s # (case after_first c s of Some rest \<Rightarrow> split c rest | None \<Rightarrow> [])"
proof (induction s)
  case Nil
  show ?case by (simp add: before_first_def after_first_def)
next
  case (Cons a s)
  show ?case
  proof (cases "a = c")
    case True
    then show ?thesis by (simp add: before_first_def after_first_def)
  next
    case False
    then show ?thesis
      using Cons by (auto simp: before_first_def after_first_def)
  qed
qed

section \<open>Facts about the sample deployment\<close>

lemma wordLimit_sample: "wordLimit sample_config = Finite 5"
  by (simp add: wordLimit_def sample_config_def)

lemma sample_answer: "post_completion sample_env p = Inr \<lparr>choices = [Some (lit '' Plain words. '')]\<rparr>"
  by (simp add: sample_env_def)

lemma trim_sample_answer: "trim (lit '' Plain words. '') = lit ''Plain words.''"
  by (simp add: trim_def lit_def is_ws_def)

lemma sample_store_accepts: "redis_set sample_env k v = None"
  by (simp add: sample_env_def)

section \<open>The ways through the \<open>/simplify\<close> handler\<close>

lemma status_catch_simplify: "status (catch_simplify err) = 500"
  by (simp add: catch_simplify_def respond_def Let_def)

lemma body_catch_simplify_neq: "body (catch_simplify err) \<noteq> SimplifiedText t"
  by (simp add: catch_simplify_def respond_def Let_def)

lemma catch_simplify_shape: "\<exists>m. catch_simplify err = \<lparr>status = 500, body = ErrorBody m\<rparr>"
  by (simp add: catch_simplify_def respond_def Let_def)

lemma catch_simplify_Error:
  "m \<noteq> [] \<Longrightarrow> catch_simplify (Error m) = \<lparr>status = 500, body = ErrorBody m\<rparr>"
  by (simp add: catch_simplify_def respond_def)

lemma body_exceeds_limit: "\<exists>m. exceeds_limit cfg e = \<lparr>status = 400, body = ErrorBody m\<rparr>"
  by (simp add: exceeds_limit_def respond_def)

lemma fst_simplifyText:
  "fst (simplifyText e w inp aud) = w\<lparr>apiCalls := apiCalls w @ [userPrompt inp aud]\<rparr>"
  by (simp add: simplifyText_def Let_def split: sum.splits list.splits option.splits)

lemma snd_simplifyText_Inr:
  "snd (simplifyText e w inp aud) = Inr t \<longleftrightarrow>
     (\<exists>r content rest. post_completion e (userPrompt inp aud) = Inr r
        \<and> choices r = Some content # rest \<and> t = trim content)"
  by (auto simp: simplifyText_def Let_def simplification_failed_def
      split: sum.splits list.splits option.splits)

lemma saveToRedis_cases:
  "saveToRedis e w inp aud t =
     (case redis_set e (cacheKey e inp aud) t of
        Some err \<Rightarrow> (w, Inl err)
      | None \<Rightarrow> (w\<lparr>cache := (cache w)(cacheKey e inp aud \<mapsto> t)\<rparr>, Inr ()))"
  by (simp add: saveToRedis_def Let_def)

lemma simplifyText_eqD:
  "simplifyText e w inp aud = (w1, res) \<Longrightarrow>
     w1 = w\<lparr>apiCalls := apiCalls w @ [userPrompt inp aud]\<rparr> \<and> snd (simplifyText e w inp aud) = res"
  using fst_simplifyText [of e w inp aud] by simp

lemma simplify_unfold:
  "simplify cfg e w req =
     (case resolveInput e req of
        Inl err \<Rightarrow> (w, catch_simplify err)
      | Inr inputText \<Rightarrow>
          if too_long cfg req inputText then (w, exceeds_limit cfg e)
          else (case url_rejected e req of
                  Some err \<Rightarrow> (w, catch_simplify err)
                | None \<Rightarrow>
                    (let w1 = w\<lparr>apiCalls := apiCalls w @ [userPrompt inputText (audience req)]\<rparr>
                     in case snd (simplifyText e w inputText (audience req)) of
                          Inl err \<Rightarrow> (w1, catch_simplify err)
                        | Inr t \<Rightarrow>
                            (case redis_set e (cacheKey e inputText (audience req)) t of
                               Some err \<Rightarrow> (w1, catch_simplify err)
                             | None \<Rightarrow>
                                 (w1\<lparr>cache := (cache w)(cacheKey e inputText (audience req) \<mapsto> t)\<rparr>,
                                  respond 200 (SimplifiedText t))))))"
  by (auto simp: simplify_def too_long_def url_rejected_def saveToRedis_cases Let_def
      split: sum.splits option.splits prod.splits dest!: simplifyText_eqD)

lemma simplify_results:
  "simplify cfg e w req = (w', r) \<Longrightarrow>
     (\<exists>err. resolveInput e req = Inl err \<and> w' = w \<and> r = catch_simplify err)
   \<or> (\<exists>inputText. resolveInput e req = Inr inputText \<and> too_long cfg req inputText
         \<and> w' = w \<and> r = exceeds_limit cfg e)
   \<or> (\<exists>inputText err. resolveInput e req = Inr inputText \<and> \<not> too_long cfg req inputText
         \<and> cache w' = cache w \<and> r = catch_simplify err)
   \<or> (\<exists>inputText t. resolveInput e req = Inr inputText \<and> \<not> too_long cfg req inputText
         \<and> url_rejected e req = None
         \<and> snd (simplifyText e w inputText (audience req)) = Inr t
         \<and> redis_set e (cacheKey e inputText (audience req)) t = None
         \<and> cache w' = (cache w)(cacheKey e inputText (audience req) \<mapsto> t)
         \<and> r = respond 200 (SimplifiedText t))"
  unfolding simplify_unfold
  by (auto simp: Let_def split: sum.splits option.splits if_splits)

lemma simplify_success:
  "resolveInput e req = Inr inputText \<Longrightarrow> \<not> too_long cfg req inputText \<Longrightarrow>
   url_rejected e req = None \<Longrightarrow> snd (simplifyText e w inputText (audience req)) = Inr t \<Longrightarrow>
   redis_set e (cacheKey e inputText (audience req)) t = None \<Longrightarrow>
   simplify cfg e w req =
     (\<lparr>cache = (cache w)(cacheKey e inputText (audience req) \<mapsto> t),
       apiCalls = apiCalls w @ [userPrompt inputText (audience req)]\<rparr>,
      \<lparr>status = 200, body = SimplifiedText t\<rparr>)"
  unfolding simplify_unfold by (simp add: Let_def respond_def)

lemma simplify_success_only:
  assumes sr: "simplify cfg e w req = (w', r)" and bt: "body r = SimplifiedText t"
  shows "\<exists>inputText. resolveInput e req = Inr inputText \<and> \<not> too_long cfg req inputText
         \<and> url_rejected e req = None
         \<and> snd (simplifyText e w inputText (audience req)) = Inr t
         \<and> redis_set e (cacheKey e inputText (audience req)) t = None
         \<and> cache w' = (cache w)(cacheKey e inputText (audience req) \<mapsto> t)
         \<and> r = \<lparr>status = 200, body = SimplifiedText t\<rparr>"
  using simplify_results [OF sr]
proof (elim disjE exE conjE)
  fix err assume "r = catch_simplify err"
  with bt show ?thesis by (simp add: body_catch_simplify_neq)
next
  fix inputText assume "r = exceeds_limit cfg e"
  with bt show ?thesis by (simp add: exceeds_limit_def respond_def)
next
  fix inputText err assume "r = catch_simplify err"
  with bt show ?thesis by (simp add: body_catch_simplify_neq)
next
  fix inputText t'
  assume h: "resolveInput e req = Inr inputText" "\<not> too_long cfg req inputText"
    "url_rejected e req = None" "snd (simplifyText e w inputText (audience req)) = Inr t'"
    "redis_set e (cacheKey e inputText (audience req)) t' = None"
    "cache w' = (cache w)(cacheKey e inputText (audience req) \<mapsto> t')"
    "r = respond 200 (SimplifiedText t')"
  from h(7) bt have "t' = t" by (simp add: respond_def)
  with h show ?thesis by (simp add: respond_def)
qed

lemma simplify_failure_only:
  assumes sr: "simplify cfg e w req = (w', r)" and bt: "\<forall>t. body r \<noteq> SimplifiedText t"
  shows "cache w' = cache w \<and> (\<exists>m. r = \<lparr>status = 400, body = ErrorBody m\<rparr>
           \<or> r = \<lparr>status = 500, body = ErrorBody m\<rparr>)"
  using simplify_results [OF sr]
proof (elim disjE exE conjE)
  fix err assume "r = catch_simplify err" "w' = w"
  then show ?thesis using catch_simplify_shape [of err] by auto
next
  fix inputText assume "r = exceeds_limit cfg e" "w' = w"
  then show ?thesis using body_exceeds_limit [of cfg e] by auto
next
  fix inputText err assume "r = catch_simplify err" "cache w' = cache w"
  then show ?thesis using catch_simplify_shape [of err] by auto
next
  fix inputText t'
  assume "r = respond 200 (SimplifiedText t')"
  with bt show ?thesis by (simp add: respond_def)
qed

lemma simplify_status_400:
  assumes sr: "simplify cfg e w req = (w', r)"
  shows "status r = 400 \<longleftrightarrow> (\<exists>t. resolveInput e req = Inr t \<and> too_long cfg req t)"
  using simplify_results [OF sr]
proof (elim disjE exE conjE)
  fix err assume "r = catch_simplify err" "resolveInput e req = Inl err"
  then show ?thesis by (simp add: status_catch_simplify)
next
  fix inputText assume "r = exceeds_limit cfg e" "resolveInput e req = Inr inputText"
    "too_long cfg req inputText"
  then show ?thesis by (simp add: exceeds_limit_def respond_def)
next
  fix inputText err assume "r = catch_simplify err" "resolveInput e req = Inr inputText"
    "\<not> too_long cfg req inputText"
  then show ?thesis by (simp add: status_catch_simplify)
next
  fix inputText t'
  assume "r = respond 200 (SimplifiedText t')" "resolveInput e req = Inr inputText"
    "\<not> too_long cfg req inputText"
  then show ?thesis by (simp add: respond_def)
qed









section \<open>The access guard lets through exactly the allow-listed origins\<close>

text \<open>
  C1. The guard looks at the \<open>origin\<close> header, or at the \<open>referer\<close> header when there
  is no (non-empty) \<open>origin\<close>. It passes the request on if and only if that header is
  present and starts with the allow-listed domain, or with \<open>http://localhost\<close> or
  \<open>https://localhost\<close>, or starts with the extension identifier while the \<open>token\<close>
  header equals the SHA-256 digest of the configured token. In every other case the
  reply is 403 with the fixed access-denied message.
\<close>

theorem checkOrigin_passes_iff:
  "(checkOrigin cfg h = Next \<longleftrightarrow>
      (\<exists>og. js_or (origin h) (referer h) = Some og \<and>
         (prefix allowedOrigin og
          \<or> prefix (lit ''http://localhost'') og
          \<or> prefix (lit ''https://localhost'') og
          \<or> (prefix (allowedExtension cfg) og \<and> token h = Some (sha256_hex cfg (TOKEN cfg))))))
   \<and> (checkOrigin cfg h \<noteq> Next \<longrightarrow>
        checkOrigin cfg h = Respond \<lparr>status = 403,
          body = MessageBody (lit ''Access denied: Requests from your origin are not allowed.'')\<rparr>)"
proof -
  have ne: "\<not> prefix allowedOrigin []" "\<not> prefix (lit ''http://localhost'') []"
    "\<not> prefix (lit ''https://localhost'') []" "\<not> prefix (allowedExtension cfg) []"
    using allowedExtension_nonempty[of cfg] by (simp_all add: allowedOrigin_def lit_def)
  show ?thesis
  proof (cases "js_or (origin h) (referer h)")
    case None
    then show ?thesis
      by (simp add: checkOrigin_def if_truthy_def truthy_def access_denied_def respond_def)
  next
    case (Some og)
    show ?thesis
    proof (cases "og = []")
      case True
      with Some ne show ?thesis
        by (simp add: checkOrigin_def if_truthy_def truthy_def access_denied_def respond_def)
    next
      case False
      with Some show ?thesis
        by (auto simp: checkOrigin_def if_truthy_def truthy_def access_denied_def respond_def
            startsWith_prefix extension_token_def)
    qed
  qed
qed

theorem checkOrigin_passes_iff_witness:
  "checkOrigin sample_config
     \<lparr>origin = None, referer = Some (lit ''chrome-extension://abcdef/popup.html''),
      token = Some (lit ''digest-of-secret'')\<rparr> = Next
   \<and> checkOrigin sample_config
     \<lparr>origin = Some (lit ''https://evil.example''),
      referer = Some (lit ''https://simplifymytext.org/''), token = None\<rparr>
     = Respond \<lparr>status = 403,
         body = MessageBody (lit ''Access denied: Requests from your origin are not allowed.'')\<rparr>"
proof
  let ?h = "\<lparr>origin = None, referer = Some (lit ''chrome-extension://abcdef/popup.html''),
      token = Some (lit ''digest-of-secret'')\<rparr>"
  have "js_or (origin ?h) (referer ?h) = Some (lit ''chrome-extension://abcdef/popup.html'')"
    by (simp add: js_or_def truthy_def)
  moreover have "prefix (allowedExtension sample_config) (lit ''chrome-extension://abcdef/popup.html'')"
    by (simp add: allowedExtension_def sample_config_def or_default_def lit_def)
  moreover have "token ?h = Some (sha256_hex sample_config (TOKEN sample_config))"
    by (simp add: TOKEN_def sample_config_def or_default_def lit_def)
  ultimately show "checkOrigin sample_config ?h = Next"
    using checkOrigin_passes_iff [of sample_config ?h] by blast
next
  let ?h = "\<lparr>origin = Some (lit ''https://evil.example''),
      referer = Some (lit ''https://simplifymytext.org/''), token = None\<rparr>"
  have "js_or (origin ?h) (referer ?h) = Some (lit ''https://evil.example'')"
    by (simp add: js_or_def truthy_def lit_def)
  moreover have "\<not> prefix allowedOrigin (lit ''https://evil.example'')"
    "\<not> prefix (lit ''http://localhost'') (lit ''https://evil.example'')"
    "\<not> prefix (lit ''https://localhost'') (lit ''https://evil.example'')"
    "token ?h \<noteq> Some (sha256_hex sample_config (TOKEN sample_config))"
    by (simp_all add: allowedOrigin_def lit_def)
  ultimately have "checkOrigin sample_config ?h \<noteq> Next"
    using checkOrigin_passes_iff [of sample_config ?h] by simp
  then show "checkOrigin sample_config ?h = Respond \<lparr>status = 403,
         body = MessageBody (lit ''Access denied: Requests from your origin are not allowed.'')\<rparr>"
    using checkOrigin_passes_iff [of sample_config ?h] by blast
qed

lemma resolve_sample_text:
  "t \<noteq> [] \<Longrightarrow> resolveInput e (sample_request (Some t) None None) = Inr t"
  by (simp add: resolveInput_def sample_request_def if_truthy_def truthy_def)

lemma sample_request_no_url: "\<not> truthy (url (sample_request t f None))"
  by (simp add: sample_request_def truthy_def)




lemma hello_passes:
  "\<not> too_long sample_config (sample_request (Some (lit ''hello'')) None None) (lit ''hello'')"
  "url_rejected sample_env (sample_request (Some (lit ''hello'')) None None) = None"
  by (simp_all add: too_long_def wordLimit_sample js_greater_def lit_def url_rejected_def
      sample_request_def if_truthy_def truthy_def)

lemma sample_simplifyText: "snd (simplifyText sample_env w inp a) = Inr (lit ''Plain words.'')"
  by (simp add: snd_simplifyText_Inr sample_answer trim_sample_answer)

section \<open>The input resolver prefers the file, then the url, then the text\<close>

text \<open>
  C2 (as the code has it). The resolver takes the uploaded file's extracted text
  whenever there is a file, otherwise the url, otherwise the text. When there is no
  file and the url and the text are absent or empty, the request fails with the error
  \<open>No valid input provided\<close>; the error is thrown inside the handler's \<open>try\<close>, so the
  status is 500. Nothing is stored and the completion client is not called.
\<close>

theorem resolveInput_priority:
  "(file_field req = Some f \<longrightarrow> resolveInput e req = handleFileInput e f)
   \<and> (file_field req = None \<and> url req = Some u \<and> u \<noteq> [] \<longrightarrow> resolveInput e req = Inr u)
   \<and> (file_field req = None \<and> \<not> truthy (url req) \<and> text_field req = Some t \<and> t \<noteq> []
        \<longrightarrow> resolveInput e req = Inr t)
   \<and> (file_field req = None \<and> \<not> truthy (url req) \<and> \<not> truthy (text_field req)
        \<longrightarrow> simplify cfg e w req
            = (w, \<lparr>status = 500, body = ErrorBody (lit ''No valid input provided'')\<rparr>))"
  by (simp add: simplify_def resolveInput_def if_truthy_def truthy_def catch_simplify_def
      respond_def lit_def)

theorem resolveInput_priority_witness:
  "resolveInput sample_env (sample_request (Some (lit ''hello''))
       (Some (sample_upload ''text/plain'')) (Some (lit ''http://example.org'')))
     = handleFileInput sample_env (sample_upload ''text/plain'')
   \<and> resolveInput sample_env (sample_request (Some (lit ''hello'')) None
       (Some (lit ''http://example.org''))) = Inr (lit ''http://example.org'')
   \<and> resolveInput sample_env (sample_request (Some (lit ''hello'')) None None) = Inr (lit ''hello'')
   \<and> simplify sample_config sample_env sample_world (sample_request None None None)
     = (sample_world, \<lparr>status = 500, body = ErrorBody (lit ''No valid input provided'')\<rparr>)"
  (is "?A \<and> ?B \<and> ?C \<and> ?D")
proof (intro conjI)
  show ?A
    using resolveInput_priority [where req = "sample_request (Some (lit ''hello''))
       (Some (sample_upload ''text/plain'')) (Some (lit ''http://example.org''))"
       and f = "sample_upload ''text/plain''" and e = sample_env and u = "[]" and t = "[]"
       and cfg = sample_config and w = sample_world]
    by (simp add: sample_request_def)
  show ?B
    using resolveInput_priority [where req = "sample_request (Some (lit ''hello'')) None
       (Some (lit ''http://example.org''))"
       and f = "sample_upload ''text/plain''" and e = sample_env
       and u = "lit ''http://example.org''" and t = "[]"
       and cfg = sample_config and w = sample_world]
    by (simp add: sample_request_def lit_def)
  show ?C
    using resolveInput_priority [where req = "sample_request (Some (lit ''hello'')) None None"
       and f = "sample_upload ''text/plain''" and e = sample_env
       and u = "[]" and t = "lit ''hello''"
       and cfg = sample_config and w = sample_world]
    by (simp add: sample_request_def lit_def truthy_def)
  show ?D
    using resolveInput_priority [where req = "sample_request None None None"
       and f = "sample_upload ''text/plain''" and e = sample_env
       and u = "[]" and t = "[]"
       and cfg = sample_config and w = sample_world]
    by (simp add: sample_request_def truthy_def)
qed

text \<open>
  C2 as stated asks for status 400 when file, url and text are all absent. The handler
  answers 500.
\<close>

theorem no_input_is_not_400:
  "status (snd (simplify sample_config sample_env sample_world (sample_request None None None)))
     \<noteq> 400
   \<and> snd (simplify sample_config sample_env sample_world (sample_request None None None))
     = \<lparr>status = 500, body = ErrorBody (lit ''No valid input provided'')\<rparr>"
  by (simp add: simplify_def resolveInput_def sample_request_def if_truthy_def truthy_def
      catch_simplify_def respond_def lit_def)

section \<open>The length check\<close>

text \<open>
  Without a (non-empty) url, a resolved payload longer than the word limit, counted in
  UTF-16 code units, is answered 400 with a message that names the limit, and the state
  is left as it was; a payload within the limit is not answered 400.
\<close>

lemma length_check_without_url:
  assumes nu: "\<not> truthy (url req)" and ri: "resolveInput e req = Inr inputText"
  shows "(js_greater (Finite (of_nat (length inputText))) (wordLimit cfg)
      \<longrightarrow> simplify cfg e w req
          = (w, \<lparr>status = 400, body = ErrorBody (lit ''Text exceeds the word limit of ''
                  @ numberToString e (wordLimit cfg) @ lit '' characters.'')\<rparr>))
     \<and> (\<not> js_greater (Finite (of_nat (length inputText))) (wordLimit cfg)
      \<longrightarrow> status (snd (simplify cfg e w req)) \<noteq> 400)"
proof (intro conjI impI)
  assume "js_greater (Finite (of_nat (length inputText))) (wordLimit cfg)"
  with nu ri show "simplify cfg e w req
          = (w, \<lparr>status = 400, body = ErrorBody (lit ''Text exceeds the word limit of ''
                  @ numberToString e (wordLimit cfg) @ lit '' characters.'')\<rparr>)"
    by (simp add: simplify_def exceeds_limit_def respond_def)
next
  assume ng: "\<not> js_greater (Finite (of_nat (length inputText))) (wordLimit cfg)"
  obtain w' r where sr: "simplify cfg e w req = (w', r)" by (cases "simplify cfg e w req")
  have "status r = 400 \<longleftrightarrow> (\<exists>t. resolveInput e req = Inr t \<and> too_long cfg req t)"
    by (rule simplify_status_400 [OF sr])
  with ri ng have "status r \<noteq> 400" by (simp add: too_long_def)
  then show "status (snd (simplify cfg e w req)) \<noteq> 400" by (simp add: sr)
qed

lemma length_check_without_url_sample:
  "simplify sample_config sample_env sample_world (sample_request (Some (lit ''abcdef'')) None None)
     = (sample_world,
        \<lparr>status = 400, body = ErrorBody (lit ''Text exceeds the word limit of 5 characters.'')\<rparr>)
   \<and> status (snd (simplify sample_config sample_env sample_world
        (sample_request (Some (lit ''hello'')) None None))) \<noteq> 400"
proof
  have r: "resolveInput sample_env (sample_request (Some (lit ''abcdef'')) None None)
      = Inr (lit ''abcdef'')"
    by (rule resolve_sample_text) (simp add: lit_def)
  have g: "js_greater (Finite (of_nat (length (lit ''abcdef'')))) (wordLimit sample_config)"
    by (simp add: wordLimit_sample js_greater_def lit_def)
  have m: "lit ''Text exceeds the word limit of ''
      @ numberToString sample_env (wordLimit sample_config) @ lit '' characters.''
      = lit ''Text exceeds the word limit of 5 characters.''"
    by (simp add: wordLimit_sample sample_env_def lit_def)
  from length_check_without_url [OF sample_request_no_url r, of sample_config sample_world] g
  have "simplify sample_config sample_env sample_world
      (sample_request (Some (lit ''abcdef'')) None None)
     = (sample_world, \<lparr>status = 400, body = ErrorBody (lit ''Text exceeds the word limit of ''
          @ numberToString sample_env (wordLimit sample_config) @ lit '' characters.'')\<rparr>)"
    by blast
  then show "simplify sample_config sample_env sample_world
      (sample_request (Some (lit ''abcdef'')) None None)
     = (sample_world,
        \<lparr>status = 400, body = ErrorBody (lit ''Text exceeds the word limit of 5 characters.'')\<rparr>)"
    by (simp only: m)
next
  have r: "resolveInput sample_env (sample_request (Some (lit ''hello'')) None None)
      = Inr (lit ''hello'')"
    by (rule resolve_sample_text) (simp add: lit_def)
  have g: "\<not> js_greater (Finite (of_nat (length (lit ''hello'')))) (wordLimit sample_config)"
    by (simp add: wordLimit_sample js_greater_def lit_def)
  from length_check_without_url [OF sample_request_no_url r, of sample_config sample_world] g
  show "status (snd (simplify sample_config sample_env sample_world
        (sample_request (Some (lit ''hello'')) None None))) \<noteq> 400"
    by blast
qed

text \<open>
  C3. A request that resolves to a text payload longer than the word limit is to be
  answered 400; the comment on the check says as much: \<open>Validate input length for text
  (not URL)\<close>. The handler does so when no url is sent, but the guard of the check
  tests the \<open>url\<close> field, not the input that was resolved. An upload sent together
  with a url resolves to the text of the upload, six code units against a limit of five
  here; the check is skipped, the url that is not used is validated, and the text is
  simplified and answered with status 200.
\<close>

theorem upload_with_url_skips_length_check:
  "resolveInput sample_env (sample_request None (Some (sample_upload ''text/plain''))
       (Some (lit ''http://example.org''))) = Inr (lit ''abcdef'')
   \<and> js_greater (Finite (of_nat (length (lit ''abcdef'')))) (wordLimit sample_config)
   \<and> snd (simplify sample_config sample_env sample_world
        (sample_request None (Some (sample_upload ''text/plain'')) (Some (lit ''http://example.org''))))
     = \<lparr>status = 200, body = SimplifiedText (lit ''Plain words.'')\<rparr>"
  (is "?A \<and> ?B \<and> ?C")
proof (intro conjI)
  let ?req = "sample_request None (Some (sample_upload ''text/plain''))
       (Some (lit ''http://example.org''))"
  show r: ?A
    by (simp add: resolveInput_def sample_request_def sample_upload_def handleFileInput_def
        sample_env_def lit_def)
  show ?B
    by (simp add: wordLimit_sample js_greater_def lit_def)
  have u: "truthy (url ?req)"
    by (simp add: sample_request_def truthy_def lit_def)
  then have a: "\<not> too_long sample_config ?req (lit ''abcdef'')"
    by (simp add: too_long_def)
  have b: "url_rejected sample_env ?req = None"
    by (simp add: url_rejected_def sample_request_def if_truthy_def truthy_def sample_env_def
        startsWith_def lit_def)
  show ?C
    using simplify_success [OF r a b sample_simplifyText sample_store_accepts] by simp
qed

section \<open>Dispatch on the MIME type of the upload\<close>

text \<open>
  C4. An upload is dispatched on its declared MIME type to exactly three strategies:
  \<open>application/pdf\<close> to the PDF extractor, the Word MIME type to the Word extractor,
  \<open>text/plain\<close> to UTF-8 decoding of the buffer. For any other MIME type the request
  fails with the message \<open>Unsupported file type\<close>; the status is 500, whatever else
  the request carries, and the state is left as it was.
\<close>

theorem handleFileInput_dispatch:
  "(mimetype f = lit ''application/pdf'' \<longrightarrow> handleFileInput e f = extractTextFromPdf e (buffer f))
   \<and> (mimetype f = lit ''application/vnd.openxmlformats-officedocument.wordprocessingml.document''
        \<longrightarrow> handleFileInput e f = extractTextFromWord e (buffer f))
   \<and> (mimetype f = lit ''text/plain'' \<longrightarrow> handleFileInput e f = Inr (utf8_toString e (buffer f)))
   \<and> (mimetype f \<noteq> lit ''application/pdf''
        \<and> mimetype f \<noteq> lit ''application/vnd.openxmlformats-officedocument.wordprocessingml.document''
        \<and> mimetype f \<noteq> lit ''text/plain'' \<and> file_field req = Some f
        \<longrightarrow> simplify cfg e w req
            = (w, \<lparr>status = 500, body = ErrorBody (lit ''Unsupported file type'')\<rparr>))"
proof -
  have d: "lit ''application/pdf''
        \<noteq> lit ''application/vnd.openxmlformats-officedocument.wordprocessingml.document''"
    "lit ''text/plain'' \<noteq> lit ''application/pdf''"
    "lit ''text/plain''
        \<noteq> lit ''application/vnd.openxmlformats-officedocument.wordprocessingml.document''"
    by (simp_all add: lit_def)
  have u: "catch_simplify (Error (lit ''Unsupported file type''))
      = \<lparr>status = 500, body = ErrorBody (lit ''Unsupported file type'')\<rparr>"
    by (rule catch_simplify_Error) (simp add: lit_def)
  show ?thesis
    using d by (auto simp: handleFileInput_def simplify_def resolveInput_def u)
qed

theorem handleFileInput_dispatch_witness:
  "handleFileInput sample_env (sample_upload ''application/pdf'')
     = Inl (Error (lit ''Invalid PDF structure''))
   \<and> handleFileInput sample_env
       (sample_upload ''application/vnd.openxmlformats-officedocument.wordprocessingml.document'')
     = Inr (lit ''text of the document'')
   \<and> handleFileInput sample_env (sample_upload ''text/plain'') = Inr (lit ''abcdef'')
   \<and> simplify sample_config sample_env sample_world
       (sample_request (Some (lit ''hello'')) (Some (sample_upload ''image/png'')) None)
     = (sample_world, \<lparr>status = 500, body = ErrorBody (lit ''Unsupported file type'')\<rparr>)"
  (is "?A \<and> ?B \<and> ?C \<and> ?D")
proof (intro conjI)
  show ?A
    using handleFileInput_dispatch [where f = "sample_upload ''application/pdf''"
        and e = sample_env and cfg = sample_config and w = sample_world
        and req = "sample_request None (Some (sample_upload ''application/pdf'')) None"]
    by (simp add: sample_upload_def sample_env_def)
  show ?B
    using handleFileInput_dispatch [where f = "sample_upload
          ''application/vnd.openxmlformats-officedocument.wordprocessingml.document''"
        and e = sample_env and cfg = sample_config and w = sample_world
        and req = "sample_request None None None"]
    by (simp add: sample_upload_def sample_env_def)
  show ?C
    using handleFileInput_dispatch [where f = "sample_upload ''text/plain''"
        and e = sample_env and cfg = sample_config and w = sample_world
        and req = "sample_request None None None"]
    by (simp add: sample_upload_def sample_env_def lit_def)
  have "mimetype (sample_upload ''image/png'') \<noteq> lit ''application/pdf''"
    "mimetype (sample_upload ''image/png'')
       \<noteq> lit ''application/vnd.openxmlformats-officedocument.wordprocessingml.document''"
    "mimetype (sample_upload ''image/png'') \<noteq> lit ''text/plain''"
    "file_field (sample_request (Some (lit ''hello'')) (Some (sample_upload ''image/png'')) None)
       = Some (sample_upload ''image/png'')"
    by (simp_all add: sample_upload_def sample_request_def lit_def)
  then show ?D
    using handleFileInput_dispatch [where f = "sample_upload ''image/png''"
        and e = sample_env and cfg = sample_config and w = sample_world
        and req = "sample_request (Some (lit ''hello'')) (Some (sample_upload ''image/png'')) None"]
    by blast
qed

section \<open>The simplified text is the trimmed content of the first choice\<close>

text \<open>
  C5. Whenever the completion client's reply to the prompt has a first choice with a
  content, \<open>simplifyText\<close> returns exactly that content with the white space trimmed
  from both ends; any \<open>simplifiedText\<close> that \<open>/simplify\<close> returns is that string; and
  \<open>/simplify\<close> does return it, with status 200, when the input passed the checks and
  the store accepted the entry.
\<close>

theorem simplify_returns_trimmed_content:
  assumes ri: "resolveInput e req = Inr inputText"
    and pc: "post_completion e (userPrompt inputText (audience req)) = Inr resp"
    and ch: "choices resp = Some content # others"
  shows "snd (simplifyText e w inputText (audience req)) = Inr (trim content)
     \<and> (\<forall>t. body (snd (simplify cfg e w req)) = SimplifiedText t \<longrightarrow> t = trim content)
     \<and> (\<not> too_long cfg req inputText \<and> url_rejected e req = None
          \<and> redis_set e (cacheKey e inputText (audience req)) (trim content) = None
        \<longrightarrow> snd (simplify cfg e w req) = \<lparr>status = 200, body = SimplifiedText (trim content)\<rparr>)"
proof (intro conjI allI impI)
  show st: "snd (simplifyText e w inputText (audience req)) = Inr (trim content)"
    using pc ch by (simp add: snd_simplifyText_Inr)
  {
    fix t assume bt: "body (snd (simplify cfg e w req)) = SimplifiedText t"
    obtain w' r where sr: "simplify cfg e w req = (w', r)" by (cases "simplify cfg e w req")
    from bt sr have "body r = SimplifiedText t" by simp
    from simplify_success_only [OF sr this] obtain i where
      "resolveInput e req = Inr i" "snd (simplifyText e w i (audience req)) = Inr t" by blast
    with ri st show "t = trim content" by simp
  }
  {
    assume "\<not> too_long cfg req inputText \<and> url_rejected e req = None
          \<and> redis_set e (cacheKey e inputText (audience req)) (trim content) = None"
    then show "snd (simplify cfg e w req) = \<lparr>status = 200, body = SimplifiedText (trim content)\<rparr>"
      using simplify_success [OF ri _ _ st, of cfg] by simp
  }
qed

theorem simplify_returns_trimmed_content_witness:
  "snd (simplify sample_config sample_env sample_world (sample_request (Some (lit ''hello'')) None None))
     = \<lparr>status = 200, body = SimplifiedText (lit ''Plain words.'')\<rparr>"
proof -
  let ?req = "sample_request (Some (lit ''hello'')) None None"
  have ri: "resolveInput sample_env ?req = Inr (lit ''hello'')"
    by (rule resolve_sample_text) (simp add: lit_def)
  have ch: "choices \<lparr>choices = [Some (lit '' Plain words. '')]\<rparr> = Some (lit '' Plain words. '') # []"
    by simp
  note th = simplify_returns_trimmed_content [OF ri sample_answer ch, of sample_world sample_config]
  have pre: "\<not> too_long sample_config ?req (lit ''hello'') \<and> url_rejected sample_env ?req = None
      \<and> redis_set sample_env (cacheKey sample_env (lit ''hello'') (audience ?req))
           (trim (lit '' Plain words. '')) = None"
    by (intro conjI hello_passes sample_store_accepts)
  from th [THEN conjunct2, THEN conjunct2] pre
  have "snd (simplify sample_config sample_env sample_world ?req)
      = \<lparr>status = 200, body = SimplifiedText (trim (lit '' Plain words. ''))\<rparr>"
    by (rule mp)
  then show ?thesis by (simp only: trim_sample_answer)
qed

section \<open>The rating of a feedback\<close>

text \<open>
  C6. A rating that is NaN, or finite and below 1 or above 10, or infinite, or missing
  (which \<open>isNaN\<close> takes for NaN), yields 400 with the error message; a finite rating
  from 1 to 10, both included, yields 200 with the confirmation.
\<close>

theorem feedback_rating:
  "feedback (Some NaN)
     = \<lparr>status = 400, body = ErrorBody (lit ''Rating must be a number between 1 and 10'')\<rparr>
   \<and> (q < 1 \<or> 10 < q \<longrightarrow> feedback (Some (Finite q))
     = \<lparr>status = 400, body = ErrorBody (lit ''Rating must be a number between 1 and 10'')\<rparr>)
   \<and> (1 \<le> q \<and> q \<le> 10 \<longrightarrow> feedback (Some (Finite q))
     = \<lparr>status = 200, body = MessageBody (lit ''Rating submitted successfully'')\<rparr>)
   \<and> feedback (Some PosInfinity)
     = \<lparr>status = 400, body = ErrorBody (lit ''Rating must be a number between 1 and 10'')\<rparr>
   \<and> feedback (Some NegInfinity)
     = \<lparr>status = 400, body = ErrorBody (lit ''Rating must be a number between 1 and 10'')\<rparr>
   \<and> feedback None
     = \<lparr>status = 400, body = ErrorBody (lit ''Rating must be a number between 1 and 10'')\<rparr>"
  by (auto simp: feedback_def invalid_rating_def js_greater_def respond_def)

theorem feedback_rating_witness:
  "feedback (Some (Finite 7))
     = \<lparr>status = 200, body = MessageBody (lit ''Rating submitted successfully'')\<rparr>
   \<and> feedback (Some (Finite 10))
     = \<lparr>status = 200, body = MessageBody (lit ''Rating submitted successfully'')\<rparr>
   \<and> feedback (Some (Finite (21 / 2)))
     = \<lparr>status = 400, body = ErrorBody (lit ''Rating must be a number between 1 and 10'')\<rparr>"
  using feedback_rating [of 7] feedback_rating [of 10] feedback_rating [of "21 / 2"]
  by simp

section \<open>The cache entry\<close>

text \<open>
  C7. The cache changes only when \<open>/simplify\<close> answers with a simplified text, and then
  by one entry: the key is \<open>prompt|:|\<close>, the resolved input text, \<open>|:|\<close>, the audience,
  \<open>|:|\<close> and the time stamp, concatenated; the value is the simplified text. Every
  simplification that succeeds is stored so, provided the store accepts the entry.
\<close>

theorem cache_written_after_success:
  assumes sr: "simplify cfg e w req = (w', r)"
  shows "(\<forall>t. body r = SimplifiedText t \<longrightarrow>
        (\<exists>inputText. resolveInput e req = Inr inputText
           \<and> snd (simplifyText e w inputText (audience req)) = Inr t
           \<and> cache w' = (cache w)
               (lit ''prompt|:|'' @ inputText @ lit ''|:|'' @ audienceValue e (audience req)
                  @ lit ''|:|'' @ numberToString e (Finite (of_int (now e))) \<mapsto> t)))
     \<and> ((\<forall>t. body r \<noteq> SimplifiedText t) \<longrightarrow> cache w' = cache w)
     \<and> (\<forall>inputText t. resolveInput e req = Inr inputText \<and> \<not> too_long cfg req inputText
           \<and> url_rejected e req = None
           \<and> snd (simplifyText e w inputText (audience req)) = Inr t
           \<and> redis_set e (cacheKey e inputText (audience req)) t = None
         \<longrightarrow> body r = SimplifiedText t)"
proof (intro conjI allI impI)
  fix t assume "body r = SimplifiedText t"
  from simplify_success_only [OF sr this] obtain i where
    "resolveInput e req = Inr i" "snd (simplifyText e w i (audience req)) = Inr t"
    "cache w' = (cache w)(cacheKey e i (audience req) \<mapsto> t)" by blast
  then show "\<exists>inputText. resolveInput e req = Inr inputText
           \<and> snd (simplifyText e w inputText (audience req)) = Inr t
           \<and> cache w' = (cache w)
               (lit ''prompt|:|'' @ inputText @ lit ''|:|'' @ audienceValue e (audience req)
                  @ lit ''|:|'' @ numberToString e (Finite (of_int (now e))) \<mapsto> t)"
    by (simp add: cacheKey_def Let_def)
next
  assume "\<forall>t. body r \<noteq> SimplifiedText t"
  from simplify_failure_only [OF sr this] show "cache w' = cache w" by simp
next
  fix inputText t
  assume h: "resolveInput e req = Inr inputText \<and> \<not> too_long cfg req inputText
           \<and> url_rejected e req = None
           \<and> snd (simplifyText e w inputText (audience req)) = Inr t
           \<and> redis_set e (cacheKey e inputText (audience req)) t = None"
  then have "simplify cfg e w req =
     (\<lparr>cache = (cache w)(cacheKey e inputText (audience req) \<mapsto> t),
       apiCalls = apiCalls w @ [userPrompt inputText (audience req)]\<rparr>,
      \<lparr>status = 200, body = SimplifiedText t\<rparr>)"
    by (intro simplify_success) simp_all
  with sr have "r = \<lparr>status = 200, body = SimplifiedText t\<rparr>" by simp
  then show "body r = SimplifiedText t" by simp
qed

theorem cache_written_after_success_witness:
  "cache (fst (simplify sample_config sample_env sample_world
       (sample_request (Some (lit ''hello'')) None None)))
     = [lit ''prompt|:|hello|:|general_public|:|1700000000000'' \<mapsto> lit ''Plain words.'']
   \<and> cache (fst (simplify sample_config sample_env sample_world (sample_request None None None)))
     = Map.empty"
proof
  let ?req = "sample_request (Some (lit ''hello'')) None None"
  let ?s = "simplify sample_config sample_env sample_world ?req"
  have sr: "?s = (fst ?s, snd ?s)" by simp
  note c = cache_written_after_success [OF sr]
  have ri: "resolveInput sample_env ?req = Inr (lit ''hello'')"
    by (rule resolve_sample_text) (simp add: lit_def)
  have pre: "resolveInput sample_env ?req = Inr (lit ''hello'')
      \<and> \<not> too_long sample_config ?req (lit ''hello'') \<and> url_rejected sample_env ?req = None
      \<and> snd (simplifyText sample_env sample_world (lit ''hello'') (audience ?req))
          = Inr (lit ''Plain words.'')
      \<and> redis_set sample_env (cacheKey sample_env (lit ''hello'') (audience ?req))
           (lit ''Plain words.'') = None"
    by (intro conjI ri hello_passes sample_simplifyText sample_store_accepts)
  have b: "body (snd ?s) = SimplifiedText (lit ''Plain words.'')"
    by (rule c [THEN conjunct2, THEN conjunct2, rule_format, OF pre])
  from c [THEN conjunct1, rule_format, OF b] obtain i where
    i: "resolveInput sample_env ?req = Inr i"
    and ci: "cache (fst ?s) = (cache sample_world)
       (lit ''prompt|:|'' @ i @ lit ''|:|'' @ audienceValue sample_env (audience ?req)
          @ lit ''|:|'' @ numberToString sample_env (Finite (of_int (now sample_env)))
        \<mapsto> lit ''Plain words.'')"
    by blast
  from i ri have "i = lit ''hello''" by simp
  with ci show "cache (fst ?s)
     = [lit ''prompt|:|hello|:|general_public|:|1700000000000'' \<mapsto> lit ''Plain words.'']"
    by (simp add: sample_world_def sample_env_def lit_def)
next
  let ?s = "simplify sample_config sample_env sample_world (sample_request None None None)"
  have sr: "?s = (fst ?s, snd ?s)" by simp
  have "snd ?s = \<lparr>status = 500, body = ErrorBody (lit ''No valid input provided'')\<rparr>"
    by (simp add: simplify_def resolveInput_def sample_request_def if_truthy_def truthy_def
        catch_simplify_def respond_def lit_def)
  then have "\<forall>t. body (snd ?s) \<noteq> SimplifiedText t" by simp
  with cache_written_after_success [OF sr, THEN conjunct2, THEN conjunct1]
  have "cache (fst ?s) = cache sample_world" by (rule mp)
  then show "cache (fst ?s) = Map.empty" by (simp add: sample_world_def)
qed

section \<open>Parsing the reply of the word lookup\<close>

lemma afterColon_between: "afterColon line = between_colons line"
proof (cases "after_first 0x3A line")
  case None
  then show ?thesis
    by (simp add: afterColon_def between_colons_def split_unfold [of _ line])
next
  case (Some rest)
  then show ?thesis
    by (simp add: afterColon_def between_colons_def split_unfold [of _ line]
        split_unfold [of _ rest])
qed

lemma element_first: "element (map f (split c s)) 0 = f (before_first c s)"
  by (simp add: element_def split_unfold [of c s])

lemma element_second:
  "element (map f (split c s)) (Suc 0) =
     (case after_first c s of Some rest \<Rightarrow> f (before_first c rest) | None \<Rightarrow> None)"
proof (cases "after_first c s")
  case None
  then show ?thesis by (simp add: element_def split_unfold [of c s])
next
  case (Some rest)
  then show ?thesis by (simp add: element_def split_unfold [of c s] split_unfold [of c rest])
qed

lemma parseWordInfo_lines:
  "parseWordInfo content =
     (or_default (between_colons (first_line content)) (lit ''Definition not found''),
      case if_truthy (Option.bind (second_line content) between_colons) of
        Some s \<Rightarrow> map trim (split 0x2C s)
      | None \<Rightarrow> [lit ''No synonyms found''])"
  by (cases "after_first 0x0A content")
     (simp_all add: parseWordInfo_def element_first element_second afterColon_between
        first_line_def second_line_def)

text \<open>
  C8 (as the code has it). The reply is split on newlines and only its first two lines
  are read. Of each, the handler takes the text between the first colon and the next
  colon (or the end of the line when there is no second colon), trimmed. The definition
  is that text of the first line, or \<open>Definition not found\<close> when the line has no colon
  or the text is empty. The synonyms are that text of the second line split at commas,
  each part trimmed, or the one-element list \<open>No synonyms found\<close> when there is no
  second line, no colon in it, or the text is empty. They are returned with the queried
  word and status 200.
\<close>

theorem wordInfo_parse:
  assumes "wordParam = Some wd" "wd \<noteq> []" "post_completion e (wordInfoPrompt wd) = Inr r"
  shows "snd (wordInfo e w wordParam) =
     \<lparr>status = 200,
      body = WordInfo wd
        (or_default (between_colons (first_line (responseContent r))) (lit ''Definition not found''))
        (case if_truthy (Option.bind (second_line (responseContent r)) between_colons) of
           Some s \<Rightarrow> map trim (split 0x2C s)
         | None \<Rightarrow> [lit ''No synonyms found''])\<rparr>"
  using assms
  by (simp add: wordInfo_def if_truthy_def truthy_def parseWordInfo_lines respond_def Let_def)

theorem wordInfo_parse_witness:
  "snd (wordInfo
         (answering (lit ''1. Definition: a fruit'' @ newline @ lit ''2. Synonyms: pome , orchard fruit''))
         sample_world (Some (lit ''apple'')))
     = \<lparr>status = 200,
        body = WordInfo (lit ''apple'') (lit ''a fruit'') [lit ''pome'', lit ''orchard fruit'']\<rparr>
   \<and> snd (wordInfo (answering (lit ''I do not know this word.'')) sample_world (Some (lit ''apple'')))
     = \<lparr>status = 200,
        body = WordInfo (lit ''apple'') (lit ''Definition not found'') [lit ''No synonyms found'']\<rparr>"
proof
  let ?c = "lit ''1. Definition: a fruit'' @ newline @ lit ''2. Synonyms: pome , orchard fruit''"
  have a: "Some (lit ''apple'') = Some (lit ''apple'')" "lit ''apple'' \<noteq> []"
    "post_completion (answering ?c) (wordInfoPrompt (lit ''apple'')) = Inr \<lparr>choices = [Some ?c]\<rparr>"
    by (simp_all add: answering_def lit_def)
  have d: "or_default (between_colons (first_line ?c)) (lit ''Definition not found'') = lit ''a fruit''"
    by (simp add: or_default_def between_colons_def first_line_def before_first_def
        after_first_def newline_def trim_def is_ws_def lit_def)
  have s: "(case if_truthy (Option.bind (second_line ?c) between_colons) of
           Some s \<Rightarrow> map trim (split 0x2C s)
         | None \<Rightarrow> [lit ''No synonyms found'']) = [lit ''pome'', lit ''orchard fruit'']"
    by (simp add: if_truthy_def truthy_def between_colons_def second_line_def before_first_def
        after_first_def newline_def trim_def is_ws_def lit_def)
  show "snd (wordInfo (answering ?c) sample_world (Some (lit ''apple'')))
     = \<lparr>status = 200,
        body = WordInfo (lit ''apple'') (lit ''a fruit'') [lit ''pome'', lit ''orchard fruit'']\<rparr>"
    using wordInfo_parse [OF a, of sample_world] by (simp add: responseContent_def d s)
next
  let ?c = "lit ''I do not know this word.''"
  have a: "Some (lit ''apple'') = Some (lit ''apple'')" "lit ''apple'' \<noteq> []"
    "post_completion (answering ?c) (wordInfoPrompt (lit ''apple'')) = Inr \<lparr>choices = [Some ?c]\<rparr>"
    by (simp_all add: answering_def lit_def)
  have d: "or_default (between_colons (first_line ?c)) (lit ''Definition not found'')
      = lit ''Definition not found''"
    by (simp add: or_default_def between_colons_def first_line_def before_first_def
        after_first_def lit_def)
  have s: "(case if_truthy (Option.bind (second_line ?c) between_colons) of
           Some s \<Rightarrow> map trim (split 0x2C s)
         | None \<Rightarrow> [lit ''No synonyms found'']) = [lit ''No synonyms found'']"
    by (simp add: if_truthy_def truthy_def second_line_def after_first_def lit_def)
  show "snd (wordInfo (answering ?c) sample_world (Some (lit ''apple'')))
     = \<lparr>status = 200,
        body = WordInfo (lit ''apple'') (lit ''Definition not found'') [lit ''No synonyms found'']\<rparr>"
    using wordInfo_parse [OF a, of sample_world] by (simp add: responseContent_def d s)
qed

text \<open>
  C8 as stated takes the part of the line after the colon. On a line with two colons the
  handler returns less: only the text up to the second colon.
\<close>

theorem second_colon_ends_the_part:
  "snd (wordInfo (answering (lit ''Definition: a fruit: red'')) sample_world (Some (lit ''apple'')))
     = \<lparr>status = 200,
        body = WordInfo (lit ''apple'') (lit ''a fruit'') [lit ''No synonyms found'']\<rparr>
   \<and> spec_part_after_colon (first_line (lit ''Definition: a fruit: red''))
     = Some (lit ''a fruit: red'')"
  by (simp add: wordInfo_def answering_def if_truthy_def truthy_def respond_def
      responseContent_def parseWordInfo_def afterColon_def element_def or_default_def
      spec_part_after_colon_def first_line_def before_first_def after_first_def
      trim_def is_ws_def lit_def)

section \<open>A request to \<open>/simplify\<close> succeeds wholly or fails wholly\<close>




section \<open>A word lookup without a word\<close>

text \<open>
  C10. When the \<open>word\<close> query parameter is absent or empty, \<open>/word-info\<close> answers 400
  with the error \<open>No word provided\<close> and the completion client is not called: the
  state, with the list of prompts sent, is as before. With a word, the prompt for that
  word is sent.
\<close>

theorem wordInfo_no_word:
  "(wordParam = None \<or> wordParam = Some [] \<longrightarrow>
      wordInfo e w wordParam = (w, \<lparr>status = 400, body = ErrorBody (lit ''No word provided'')\<rparr>)
      \<and> apiCalls (fst (wordInfo e w wordParam)) = apiCalls w)
   \<and> (wordParam = Some wd \<and> wd \<noteq> [] \<longrightarrow>
      apiCalls (fst (wordInfo e w wordParam)) = apiCalls w @ [wordInfoPrompt wd])"
  by (auto simp: wordInfo_def if_truthy_def truthy_def respond_def Let_def
      split: sum.splits prod.splits)

theorem wordInfo_no_word_witness:
  "wordInfo sample_env sample_world (Some [])
     = (sample_world, \<lparr>status = 400, body = ErrorBody (lit ''No word provided'')\<rparr>)
   \<and> wordInfo sample_env sample_world None
     = (sample_world, \<lparr>status = 400, body = ErrorBody (lit ''No word provided'')\<rparr>)
   \<and> apiCalls (fst (wordInfo sample_env sample_world (Some (lit ''apple''))))
     = [wordInfoPrompt (lit ''apple'')]"
  using wordInfo_no_word [of "Some []" sample_env sample_world "lit ''apple''"]
    wordInfo_no_word [of None sample_env sample_world "lit ''apple''"]
    wordInfo_no_word [of "Some (lit ''apple'')" sample_env sample_world "lit ''apple''"]
  by (simp add: sample_world_def lit_def)

end
